theory Spec2Isabelle
  imports Main "HOL-Library.Sublist"
begin

section \<open>Values that cross the Slide interface\<close>

text \<open>
  \<^verbatim>\<open>slide.ts\<close> imports its payload types from \<^verbatim>\<open>./core-interfaces\<close> and
  \<^verbatim>\<open>./core-enums\<close>. The class never looks inside an option payload: it stores it or
  hands it on. A payload is therefore a JavaScript object given by its property list, and a
  value of type \<^verbatim>\<open>any\<close> is a \<open>js_value\<close>.
\<close>

datatype js_value =
    JNull
  | JBool bool
  | JNum int
  | JStr string
  | JArr "js_value list"
  | JObj "(string \<times> js_value) list"

type_synonym js_object = "(string \<times> js_value) list"

type_synonym ref = nat

type_synonym HexColor = string
type_synonym CHART_NAME = string
type_synonym SHAPE_NAME = string
type_synonym BkgdOpts = js_object
type_synonym ISlideNumber = js_object
type_synonym IImageOpts = js_object
type_synonym MediaOpts = js_object
type_synonym ShapeOptions = js_object
type_synonym ITableOptions = js_object
type_synonym ITextOpts = js_object
type_synonym IText = js_object
type_synonym IChartMulti = js_object
type_synonym TableRow = "js_value list"

text \<open>The argument \<^verbatim>\<open>text: string | IText[]\<close> of \<^verbatim>\<open>addText\<close>.\<close>

datatype text_arg = TextString string | TextRuns "IText list"

text \<open>The argument \<^verbatim>\<open>type: CHART_NAME | IChartMulti[]\<close> of \<^verbatim>\<open>addChart\<close>.\<close>

datatype chart_type = ChartName CHART_NAME | ChartMulti "IChartMulti list"

text \<open>
  \<^verbatim>\<open>IChartOptsLib\<close> is \<^verbatim>\<open>IChartOpts\<close> with the library's \<^verbatim>\<open>_type\<close> field, the one
  field of it that \<^verbatim>\<open>slide.ts\<close> writes. Chart options are objects shared with the caller,
  so they live in a store and are passed by reference.
\<close>

record IChartOptsLib =
  lib_type :: "chart_type option"
  chartProps :: js_object

text \<open>
  Modelled from the spec: \<^verbatim>\<open>ILayout\<close> (the spec's PresentationLayout: page geometry) and
  \<^verbatim>\<open>ISlideLayout\<close> (the spec's SlideLayout: it may define a background, a colour and a
  numbering specification) are declared in \<^verbatim>\<open>core-interfaces\<close>, which is not among the
  sources. \<^verbatim>\<open>slide.ts\<close> reads one field of them, \<^verbatim>\<open>slideLayout.slideNumberObj\<close>.
\<close>

record ILayout =
  layoutWidth :: int
  layoutHeight :: int

record ISlideLayout =
  layoutName :: string
  layoutBkgd :: "BkgdOpts option"
  layoutColor :: "HexColor option"
  layoutSlideNumberObj :: "ISlideNumber option"

text \<open>
  Modelled from the spec: \<^verbatim>\<open>ISlideObject\<close>, the spec's ContentObject, a variant over the
  content kinds that carries the payload it was built from and, for a resource-bearing
  kind, the relationship identifier created for it; and the relationship entries
  \<^verbatim>\<open>ISlideRel\<close>, \<^verbatim>\<open>ISlideRelChart\<close>, \<^verbatim>\<open>ISlideRelMedia\<close>, the spec's Relationship
  \<open>{id, kind, target}\<close>. Both are declared in \<^verbatim>\<open>core-interfaces\<close>.
\<close>

datatype ISlideObject =
    TextObject text_arg js_object
  | ShapeObject SHAPE_NAME js_object
  | ImageObject js_object nat
  | MediaObject js_object nat
  | TableObject "TableRow list" js_object
  | ChartObject chart_type "js_value list" nat
  | RawMarkupObject string
  | BackgroundObject js_object

datatype rel_kind = ImageRel | ChartRel | MediaRel

record Relationship =
  relId :: nat
  relKind :: rel_kind
  relTarget :: js_value

type_synonym ISlideRel = Relationship
type_synonym ISlideRelChart = Relationship
type_synonym ISlideRelMedia = Relationship

section \<open>Errors\<close>

text \<open>
  A JavaScript exception is a value. The spec names two kinds that a composition call
  surfaces to its caller; a callback may throw anything else.
\<close>

datatype error = ValidationError | ResourceError | OtherError string

section \<open>The Slide class\<close>

text \<open>
  The fields of \<^verbatim>\<open>class Slide\<close> (lines 30 to 44 of \<^verbatim>\<open>slide.ts\<close>) and the private
  fields behind its accessors (\<^verbatim>\<open>_bkgd\<close>, \<^verbatim>\<open>_background\<close>, \<^verbatim>\<open>_color\<close>, \<^verbatim>\<open>_hidden\<close>,
  \<^verbatim>\<open>_slideNumber\<close>, \<^verbatim>\<open>_setSlideNum\<close>; an Isabelle name cannot start with an underscore).
  \<open>None\<close> is JavaScript's \<^verbatim>\<open>undefined\<close> or \<^verbatim>\<open>null\<close>.

  \<^verbatim>\<open>_setSlideNum\<close> is the one callback the class invokes itself. It belongs to the
  owning presentation, which the sources do not contain, so it is a parameter: a function
  of the numbering spec on the presentation's state \<open>'p\<close> (its master and layouts) that
  returns normally (\<open>Inr ()\<close>) or throws (\<open>Inl e\<close>). \<^verbatim>\<open>addSlide\<close> and \<^verbatim>\<open>getSlide\<close>
  are only passed on to the table builder; they are opaque values of type \<open>'f\<close>.

  \<open>notesSlot\<close> is not a declared field of the class. Modelled from the spec: the
  reserved notes slot (the spec lists the notes text among the slide metadata that the
  serializer reads), which only the notes builder writes. A JavaScript object is open, so
  the builder can attach it; no code of \<^verbatim>\<open>slide.ts\<close> reads or writes it.
\<close>

record ('f, 'p) Slide =
  priv_setSlideNum :: "ISlideNumber \<Rightarrow> 'p \<Rightarrow> (error + unit) \<times> 'p"
  addSlide :: 'f
  data :: "ISlideObject list"
  getSlide :: 'f
  slide_id :: int
  name :: string
  number :: int
  presLayout :: ILayout
  rels :: "ISlideRel list"
  relsChart :: "ISlideRelChart list"
  relsMedia :: "ISlideRelMedia list"
  rId :: int
  slideLayout :: "ISlideLayout option"
  slideNumberObj :: "ISlideNumber option"
  priv_bkgd :: "string option"
  priv_background :: "BkgdOpts option"
  priv_color :: "HexColor option"
  priv_hidden :: "bool option"
  priv_slideNumber :: "ISlideNumber option"
  notesSlot :: "string option"

text \<open>The argument object of the constructor (lines 46 to 55).\<close>

record ('f, 'p) SlideParams =
  params_addSlide :: 'f
  params_getSlide :: 'f
  params_presLayout :: ILayout
  params_setSlideNum :: "ISlideNumber \<Rightarrow> 'p \<Rightarrow> (error + unit) \<times> 'p"
  params_slideId :: int
  params_slideRId :: int
  params_slideNumber :: int
  params_slideLayout :: "ISlideLayout option"

text \<open>
  \<^verbatim>\<open>'Slide ' + params.slideNumber\<close> converts the number to a string. A JavaScript
  number is a double. The model covers the slide numbers that are safe integers
  (\<^verbatim>\<open>Number.isSafeInteger\<close>, magnitude at most \<open>2^53 - 1\<close>): a double holds each of them
  exactly, and JavaScript prints it in plain decimal, with a minus sign when negative.
  Any other number (a larger magnitude, a fraction, NaN) is outside the model, and
  \<open>Number_toString\<close> says nothing about it.
\<close>

definition isSafeInteger :: "int \<Rightarrow> bool" where
  "isSafeInteger n = (- 9007199254740991 \<le> n \<and> n \<le> 9007199254740991)"

definition digit_char :: "nat \<Rightarrow> char" where
  "digit_char d = ''0123456789'' ! d"

fun digits :: "nat \<Rightarrow> string" where
  "digits n = (if n < 10 then [digit_char n] else digits (n div 10) @ [digit_char (n mod 10)])"

declare digits.simps [simp del]

definition decimal :: "int \<Rightarrow> string" where
  "decimal n = (if n < 0 then CHR ''-'' # digits (nat (- n)) else digits (nat n))"

definition Number_toString :: "int \<Rightarrow> string" where
  "Number_toString n = (if isSafeInteger n then decimal n else undefined)"

text \<open>Reading a string of decimal digits, to check \<open>digits\<close> against.\<close>

definition digit_value :: "char \<Rightarrow> nat" where
  "digit_value c = of_char c - 48"

definition read_digits :: "string \<Rightarrow> nat" where
  "read_digits cs = foldl (\<lambda>a c. 10 * a + digit_value c) 0 cs"

text \<open>The constructor body, lines 56 to 72, one field per assignment.\<close>

definition Slide_constructor :: "('f, 'p) SlideParams \<Rightarrow> ('f, 'p) Slide" where
  "Slide_constructor params =
     (let layout = (case params_slideLayout params of Some l \<Rightarrow> Some l | None \<Rightarrow> None) in
      \<lparr> priv_setSlideNum = params_setSlideNum params,
        addSlide = params_addSlide params,
        data = [],
        getSlide = params_getSlide params,
        slide_id = params_slideId params,
        name = ''Slide '' @ Number_toString (params_slideNumber params),
        number = params_slideNumber params,
        presLayout = params_presLayout params,
        rels = [],
        relsChart = [],
        relsMedia = [],
        rId = params_slideRId params,
        slideLayout = layout,
        slideNumberObj =
          (case layout of
             None \<Rightarrow> None
           | Some l \<Rightarrow> (case layoutSlideNumberObj l of None \<Rightarrow> None | Some n \<Rightarrow> Some n)),
        priv_bkgd = None,
        priv_background = None,
        priv_color = None,
        priv_hidden = None,
        priv_slideNumber = None,
        notesSlot = None \<rparr>)"

section \<open>The object store\<close>

text \<open>
  Slides and chart options are JavaScript objects: a method receives \<^verbatim>\<open>this\<close> as a
  reference, mutates the object behind it, and \<^verbatim>\<open>return this\<close> hands the same reference
  back. The world holds the Slide objects, the chart-options objects and the state of the
  owning presentation that \<^verbatim>\<open>_setSlideNum\<close> works on.
\<close>

record ('f, 'p) world =
  slideHeap :: "ref \<Rightarrow> ('f, 'p) Slide"
  chartOptsHeap :: "ref \<Rightarrow> IChartOptsLib"
  presState :: 'p

definition update_slide ::
  "ref \<Rightarrow> (('f, 'p) Slide \<Rightarrow> ('f, 'p) Slide) \<Rightarrow> ('f, 'p) world \<Rightarrow> ('f, 'p) world" where
  "update_slide this f w = w\<lparr>slideHeap := (slideHeap w)(this := f (slideHeap w this))\<rparr>"

section \<open>The builders of \<^verbatim>\<open>gen-objects\<close>, as parameters\<close>

text \<open>
  Every composition method and the \<^verbatim>\<open>background\<close> setter delegate to a function of
  \<^verbatim>\<open>./gen-objects\<close> (imported as \<^verbatim>\<open>genObj\<close>), which is not among the sources. The
  module is a parameter of the methods: a record of functions that may change the world in
  any way and return normally or throw. \<^verbatim>\<open>slide.ts\<close> discards what they return.
\<close>

type_synonym ('f, 'p) effect = "('f, 'p) world \<Rightarrow> (error + unit) \<times> ('f, 'p) world"

record ('f, 'p) GenObj =
  addBackgroundDefinition :: "BkgdOpts \<Rightarrow> ref \<Rightarrow> ('f, 'p) effect"
  addChartDefinition :: "ref \<Rightarrow> chart_type \<Rightarrow> js_value list \<Rightarrow> ref option \<Rightarrow> ('f, 'p) effect"
  addImageDefinition :: "ref \<Rightarrow> IImageOpts \<Rightarrow> ('f, 'p) effect"
  addMediaDefinition :: "ref \<Rightarrow> MediaOpts \<Rightarrow> ('f, 'p) effect"
  addNotesDefinition :: "ref \<Rightarrow> string \<Rightarrow> ('f, 'p) effect"
  addShapeDefinition :: "ref \<Rightarrow> SHAPE_NAME \<Rightarrow> ShapeOptions option \<Rightarrow> ('f, 'p) effect"
  addTableDefinition ::
    "ref \<Rightarrow> TableRow list \<Rightarrow> ITableOptions option \<Rightarrow> ISlideLayout option \<Rightarrow> ILayout
       \<Rightarrow> 'f \<Rightarrow> 'f \<Rightarrow> ('f, 'p) effect"
  addTextDefinition :: "ref \<Rightarrow> text_arg \<Rightarrow> ITextOpts option \<Rightarrow> bool \<Rightarrow> ('f, 'p) effect"
  addXMLDefinition :: "ref \<Rightarrow> string \<Rightarrow> ('f, 'p) effect"

text \<open>
  \<^verbatim>\<open>genObj.f(...); return this\<close>: an exception of the builder leaves the method at once,
  with the world as the builder left it; otherwise the method returns \<^verbatim>\<open>this\<close>.
\<close>

definition return_this ::
  "ref \<Rightarrow> (error + unit) \<times> ('f, 'p) world \<Rightarrow> (error + ref) \<times> ('f, 'p) world" where
  "return_this this r = (case r of (Inl e, w) \<Rightarrow> (Inl e, w) | (Inr u, w) \<Rightarrow> (Inr this, w))"

section \<open>Accessors\<close>

definition set_bkgd :: "string \<Rightarrow> ref \<Rightarrow> ('f, 'p) world \<Rightarrow> ('f, 'p) world" where
  "set_bkgd v this w = update_slide this (\<lambda>s. s\<lparr>priv_bkgd := Some v\<rparr>) w"

definition get_bkgd :: "ref \<Rightarrow> ('f, 'p) world \<Rightarrow> string option" where
  "get_bkgd this w = priv_bkgd (slideHeap w this)"

text \<open>The \<^verbatim>\<open>background\<close> setter (lines 97 to 99) is the builder call and nothing else.\<close>

definition set_background :: "('f, 'p) GenObj \<Rightarrow> BkgdOpts \<Rightarrow> ref \<Rightarrow> ('f, 'p) effect" where
  "set_background gen v this w = addBackgroundDefinition gen v this w"

definition get_background :: "ref \<Rightarrow> ('f, 'p) world \<Rightarrow> BkgdOpts option" where
  "get_background this w = priv_background (slideHeap w this)"

definition set_color :: "HexColor \<Rightarrow> ref \<Rightarrow> ('f, 'p) world \<Rightarrow> ('f, 'p) world" where
  "set_color v this w = update_slide this (\<lambda>s. s\<lparr>priv_color := Some v\<rparr>) w"

definition get_color :: "ref \<Rightarrow> ('f, 'p) world \<Rightarrow> HexColor option" where
  "get_color this w = priv_color (slideHeap w this)"

definition set_hidden :: "bool \<Rightarrow> ref \<Rightarrow> ('f, 'p) world \<Rightarrow> ('f, 'p) world" where
  "set_hidden v this w = update_slide this (\<lambda>s. s\<lparr>priv_hidden := Some v\<rparr>) w"

definition get_hidden :: "ref \<Rightarrow> ('f, 'p) world \<Rightarrow> bool option" where
  "get_hidden this w = priv_hidden (slideHeap w this)"

text \<open>
  The \<^verbatim>\<open>slideNumber\<close> setter (lines 131 to 136): two assignments, then the call of
  \<^verbatim>\<open>this._setSlideNum(value)\<close>, whose exception, if any, leaves the setter.
\<close>

definition set_slideNumber :: "ISlideNumber \<Rightarrow> ref \<Rightarrow> ('f, 'p) effect" where
  "set_slideNumber v this w =
     (let w1 = update_slide this (\<lambda>s. s\<lparr>slideNumberObj := Some v\<rparr>) w;
          w2 = update_slide this (\<lambda>s. s\<lparr>priv_slideNumber := Some v\<rparr>) w1
      in case priv_setSlideNum (slideHeap w2 this) v (presState w2) of
           (r, p) \<Rightarrow> (r, w2\<lparr>presState := p\<rparr>))"

definition get_slideNumber :: "ref \<Rightarrow> ('f, 'p) world \<Rightarrow> ISlideNumber option" where
  "get_slideNumber this w = priv_slideNumber (slideHeap w this)"

section \<open>Composition methods\<close>

text \<open>
  \<^verbatim>\<open>addChart\<close> (lines 148 to 155). \<^verbatim>\<open>optionsWithType\<close> is \<^verbatim>\<open>options\<close> itself when the
  caller gave an object, so the assignment of \<^verbatim>\<open>_type\<close> writes the caller's object. When
  \<^verbatim>\<open>options\<close> is omitted, \<^verbatim>\<open>optionsWithType\<close> is a fresh \<^verbatim>\<open>{}\<close> that no one else
  holds, and the builder is still called with \<^verbatim>\<open>options\<close>: the store does not change.
\<close>

definition addChart ::
  "('f, 'p) GenObj \<Rightarrow> ref \<Rightarrow> chart_type \<Rightarrow> js_value list \<Rightarrow> ref option
     \<Rightarrow> ('f, 'p) world \<Rightarrow> (error + ref) \<times> ('f, 'p) world" where
  "addChart gen this ty dat options w =
     (let w1 = (case options of
                  Some a \<Rightarrow>
                    w\<lparr>chartOptsHeap := (chartOptsHeap w)(a := (chartOptsHeap w a)\<lparr>lib_type := Some ty\<rparr>)\<rparr>
                | None \<Rightarrow> w)
      in return_this this (addChartDefinition gen this ty dat options w1))"

definition addImage ::
  "('f, 'p) GenObj \<Rightarrow> ref \<Rightarrow> IImageOpts \<Rightarrow> ('f, 'p) world \<Rightarrow> (error + ref) \<times> ('f, 'p) world" where
  "addImage gen this options w = return_this this (addImageDefinition gen this options w)"

definition addMedia ::
  "('f, 'p) GenObj \<Rightarrow> ref \<Rightarrow> MediaOpts \<Rightarrow> ('f, 'p) world \<Rightarrow> (error + ref) \<times> ('f, 'p) world" where
  "addMedia gen this options w = return_this this (addMediaDefinition gen this options w)"

definition addNotes ::
  "('f, 'p) GenObj \<Rightarrow> ref \<Rightarrow> string \<Rightarrow> ('f, 'p) world \<Rightarrow> (error + ref) \<times> ('f, 'p) world" where
  "addNotes gen this notes w = return_this this (addNotesDefinition gen this notes w)"

definition addShape ::
  "('f, 'p) GenObj \<Rightarrow> ref \<Rightarrow> SHAPE_NAME \<Rightarrow> ShapeOptions option
     \<Rightarrow> ('f, 'p) world \<Rightarrow> (error + ref) \<times> ('f, 'p) world" where
  "addShape gen this shapeName options w =
     return_this this (addShapeDefinition gen this shapeName options w)"

text \<open>
  \<^verbatim>\<open>addTable\<close> (lines 210 to 214) reads four fields of \<^verbatim>\<open>this\<close> for the builder and
  writes nothing itself.
\<close>

definition addTable ::
  "('f, 'p) GenObj \<Rightarrow> ref \<Rightarrow> TableRow list \<Rightarrow> ITableOptions option
     \<Rightarrow> ('f, 'p) world \<Rightarrow> (error + ref) \<times> ('f, 'p) world" where
  "addTable gen this tableRows options w =
     (let s = slideHeap w this
      in return_this this
           (addTableDefinition gen this tableRows options
              (slideLayout s) (presLayout s) (addSlide s) (getSlide s) w))"

definition addText ::
  "('f, 'p) GenObj \<Rightarrow> ref \<Rightarrow> text_arg \<Rightarrow> ITextOpts option
     \<Rightarrow> ('f, 'p) world \<Rightarrow> (error + ref) \<times> ('f, 'p) world" where
  "addText gen this text options w =
     return_this this (addTextDefinition gen this text options False w)"

definition addXML ::
  "('f, 'p) GenObj \<Rightarrow> ref \<Rightarrow> string \<Rightarrow> ('f, 'p) world \<Rightarrow> (error + ref) \<times> ('f, 'p) world" where
  "addXML gen this xml w = return_this this (addXMLDefinition gen this xml w)"

section \<open>The builders, modelled from the spec\<close>

text \<open>
  Modelled from the spec: the spec's RelationshipAllocator, which is part of the missing
  \<^verbatim>\<open>gen-objects\<close>. It allocates the next identifier in the calling slide's namespace
  (identifiers start at 1 and increase strictly) and records the entry in the table of its
  kind. The namespace of a slide is its three relationship tables together. The spec calls
  deduplication of identical resources an optimisation, not a requirement; it is not
  modelled.
\<close>

definition all_rel_ids :: "('f, 'p) Slide \<Rightarrow> nat list" where
  "all_rel_ids s = map relId (rels s) @ map relId (relsChart s) @ map relId (relsMedia s)"

text \<open>
  Modelled from the spec: the next identifier of the slide's namespace, one more than the
  largest identifier issued so far, and 1 on a slide without relationships.
\<close>

definition next_rel_id :: "('f, 'p) Slide \<Rightarrow> nat" where
  "next_rel_id s = Suc (fold max (all_rel_ids s) 0)"

text \<open>
  Modelled from the spec: \<open>register(kind, target)\<close> returns the identifier it allocated
  and appends the new entry to the table of its kind: images to \<^verbatim>\<open>rels\<close>, charts to
  \<^verbatim>\<open>relsChart\<close>, media to \<^verbatim>\<open>relsMedia\<close>.
\<close>

definition register :: "rel_kind \<Rightarrow> js_value \<Rightarrow> ('f, 'p) Slide \<Rightarrow> nat \<times> ('f, 'p) Slide" where
  "register k target s =
     (let i = next_rel_id s;
          r = \<lparr>relId = i, relKind = k, relTarget = target\<rparr>
      in (i, case k of
               ImageRel \<Rightarrow> s\<lparr>rels := rels s @ [r]\<rparr>
             | ChartRel \<Rightarrow> s\<lparr>relsChart := relsChart s @ [r]\<rparr>
             | MediaRel \<Rightarrow> s\<lparr>relsMedia := relsMedia s @ [r]\<rparr>))"

text \<open>
  Modelled from the spec: the handlers of the spec's ContentValidator/Builder, the missing
  functions of \<^verbatim>\<open>gen-objects\<close>. On success a handler appends exactly one ContentObject
  to the slide's ordered list; on failure it leaves the slide as it was. An omitted option
  payload is the empty object. The spec gives no values for the geometry defaults and no
  list of chart names, so the payload is kept as given and no chart is rejected for its
  type.
\<close>

definition push_content :: "ISlideObject \<Rightarrow> ('f, 'p) Slide \<Rightarrow> ('f, 'p) Slide" where
  "push_content obj s = s\<lparr>data := data s @ [obj]\<rparr>"

text \<open>Modelled from the spec: an omitted option payload counts as the empty object.\<close>

definition or_empty :: "js_object option \<Rightarrow> js_object" where
  "or_empty options = (case options of None \<Rightarrow> [] | Some ob \<Rightarrow> ob)"

text \<open>
  Modelled from the spec: a resource is resolved from inline data or from a path; a
  payload that names neither is the spec's empty payload. Whether a path can be read is a
  matter of file I/O, outside the core.
\<close>

definition resolve_resource :: "js_object \<Rightarrow> js_value option" where
  "resolve_resource options =
     (case map_of options ''data'' of Some d \<Rightarrow> Some d | None \<Rightarrow> map_of options ''path'')"

text \<open>
  Modelled from the spec: a resource-bearing handler resolves the resource, fails with
  ResourceError when it cannot, and otherwise registers a relationship and tags the
  ContentObject with the identifier returned.
\<close>

definition spec_addResource ::
  "rel_kind \<Rightarrow> (js_object \<Rightarrow> nat \<Rightarrow> ISlideObject) \<Rightarrow> ref \<Rightarrow> js_object \<Rightarrow> ('f, 'p) effect" where
  "spec_addResource k mk this options w =
     (case resolve_resource options of
        None \<Rightarrow> (Inl ResourceError, w)
      | Some target \<Rightarrow>
          (Inr (), update_slide this
                     (\<lambda>s. case register k target s of (i, s') \<Rightarrow> push_content (mk options i) s') w))"

text \<open>Modelled from the spec: the image handler, the missing \<^verbatim>\<open>addImageDefinition\<close>.\<close>

definition spec_addImageDefinition :: "ref \<Rightarrow> IImageOpts \<Rightarrow> ('f, 'p) effect" where
  "spec_addImageDefinition this options w = spec_addResource ImageRel ImageObject this options w"

text \<open>Modelled from the spec: the media handler, the missing \<^verbatim>\<open>addMediaDefinition\<close>.\<close>

definition spec_addMediaDefinition :: "ref \<Rightarrow> MediaOpts \<Rightarrow> ('f, 'p) effect" where
  "spec_addMediaDefinition this options w = spec_addResource MediaRel MediaObject this options w"

text \<open>
  Modelled from the spec: the chart handler, the missing \<^verbatim>\<open>addChartDefinition\<close>. The
  chart descriptor keeps the type argument, which carries one type tag per series group
  of a composite chart, and the handler registers exactly one chart relationship.
\<close>

definition spec_addChartDefinition ::
  "ref \<Rightarrow> chart_type \<Rightarrow> js_value list \<Rightarrow> ref option \<Rightarrow> ('f, 'p) effect" where
  "spec_addChartDefinition this ty dat options w =
     (Inr (), update_slide this
                (\<lambda>s. case register ChartRel (JArr dat) s of
                        (i, s') \<Rightarrow> push_content (ChartObject ty dat i) s') w)"

text \<open>Modelled from the spec: the text handler, the missing \<^verbatim>\<open>addTextDefinition\<close>.\<close>

definition spec_addTextDefinition ::
  "ref \<Rightarrow> text_arg \<Rightarrow> ITextOpts option \<Rightarrow> bool \<Rightarrow> ('f, 'p) effect" where
  "spec_addTextDefinition this text options isPlaceholder w =
     (Inr (), update_slide this (push_content (TextObject text (or_empty options))) w)"

text \<open>Modelled from the spec: the shape handler, the missing \<^verbatim>\<open>addShapeDefinition\<close>.\<close>

definition spec_addShapeDefinition ::
  "ref \<Rightarrow> SHAPE_NAME \<Rightarrow> ShapeOptions option \<Rightarrow> ('f, 'p) effect" where
  "spec_addShapeDefinition this shapeName options w =
     (Inr (), update_slide this (push_content (ShapeObject shapeName (or_empty options))) w)"

text \<open>
  Modelled from the spec: the table handler, the missing \<^verbatim>\<open>addTableDefinition\<close>. It
  rejects an empty row set with ValidationError. Continuation slides for tables that
  overflow are not modelled.
\<close>

definition spec_addTableDefinition ::
  "ref \<Rightarrow> TableRow list \<Rightarrow> ITableOptions option \<Rightarrow> ISlideLayout option \<Rightarrow> ILayout
     \<Rightarrow> 'f \<Rightarrow> 'f \<Rightarrow> ('f, 'p) effect" where
  "spec_addTableDefinition this tableRows options layout pres addSlideFn getSlideFn w =
     (if tableRows = [] then (Inl ValidationError, w)
      else (Inr (), update_slide this
                      (push_content (TableObject tableRows (or_empty options))) w))"

text \<open>Modelled from the spec: the raw-markup handler, the missing \<^verbatim>\<open>addXMLDefinition\<close>.\<close>

definition spec_addXMLDefinition :: "ref \<Rightarrow> string \<Rightarrow> ('f, 'p) effect" where
  "spec_addXMLDefinition this xml w =
     (Inr (), update_slide this (push_content (RawMarkupObject xml)) w)"

text \<open>
  Modelled from the spec: the notes handler, the missing \<^verbatim>\<open>addNotesDefinition\<close>. It
  updates the single reserved notes slot and appends nothing to the content list.
\<close>

definition spec_addNotesDefinition :: "ref \<Rightarrow> string \<Rightarrow> ('f, 'p) effect" where
  "spec_addNotesDefinition this notes w =
     (Inr (), update_slide this (\<lambda>s. s\<lparr>notesSlot := Some notes\<rparr>) w)"

text \<open>
  Modelled from the spec: the background handler, the missing
  \<^verbatim>\<open>addBackgroundDefinition\<close>. The spec has a written background read back as written,
  so the handler stores the value in the field that the \<^verbatim>\<open>background\<close> getter reads.
  As a write of the background is no composition call, the handler appends nothing to the
  content list and registers no relationship. The spec does not say what a write of the
  background does to the legacy colour \<^verbatim>\<open>bkgd\<close>; no theorem below is about the legacy
  colour after such a write.
\<close>

definition spec_addBackgroundDefinition :: "BkgdOpts \<Rightarrow> ref \<Rightarrow> ('f, 'p) effect" where
  "spec_addBackgroundDefinition v this w =
     (Inr (), update_slide this (\<lambda>s. s\<lparr>priv_background := Some v\<rparr>) w)"

text \<open>Modelled from the spec: the module \<^verbatim>\<open>gen-objects\<close>, made of the handlers above.\<close>

definition spec_genObj :: "('f, 'p) GenObj" where
  "spec_genObj =
     \<lparr> addBackgroundDefinition = spec_addBackgroundDefinition,
       addChartDefinition = spec_addChartDefinition,
       addImageDefinition = spec_addImageDefinition,
       addMediaDefinition = spec_addMediaDefinition,
       addNotesDefinition = spec_addNotesDefinition,
       addShapeDefinition = spec_addShapeDefinition,
       addTableDefinition = spec_addTableDefinition,
       addTextDefinition = spec_addTextDefinition,
       addXMLDefinition = spec_addXMLDefinition \<rparr>"

section \<open>Callers\<close>

text \<open>
  A caller issues public operations one after the other: a composition call, chained on
  the Slide that the call before returned, or a property write. An exception ends a chain
  of calls.
\<close>

datatype call =
    AddText text_arg "ITextOpts option"
  | AddShape SHAPE_NAME "ShapeOptions option"
  | AddImage IImageOpts
  | AddMedia MediaOpts
  | AddTable "TableRow list" "ITableOptions option"
  | AddChart chart_type "js_value list" "ref option"
  | AddXML string
  | AddNotes string

fun invoke ::
  "('f, 'p) GenObj \<Rightarrow> ref \<Rightarrow> call \<Rightarrow> ('f, 'p) world \<Rightarrow> (error + ref) \<times> ('f, 'p) world" where
  "invoke gen this (AddText t options) w = addText gen this t options w"
| "invoke gen this (AddShape n options) w = addShape gen this n options w"
| "invoke gen this (AddImage options) w = addImage gen this options w"
| "invoke gen this (AddMedia options) w = addMedia gen this options w"
| "invoke gen this (AddTable tableRows options) w = addTable gen this tableRows options w"
| "invoke gen this (AddChart ty dat options) w = addChart gen this ty dat options w"
| "invoke gen this (AddXML xml) w = addXML gen this xml w"
| "invoke gen this (AddNotes notes) w = addNotes gen this notes w"

fun chain ::
  "('f, 'p) GenObj \<Rightarrow> ref \<Rightarrow> call list \<Rightarrow> ('f, 'p) world \<Rightarrow> (error + ref) \<times> ('f, 'p) world" where
  "chain gen this [] w = (Inr this, w)"
| "chain gen this (c # cs) w =
     (case invoke gen this c w of
        (Inl e, w') \<Rightarrow> (Inl e, w')
      | (Inr r, w') \<Rightarrow> chain gen r cs w')"

datatype operation =
    Compose call
  | SetBkgd string
  | SetBackground BkgdOpts
  | SetColor HexColor
  | SetHidden bool
  | SetSlideNumber ISlideNumber

fun perform :: "('f, 'p) GenObj \<Rightarrow> ref \<Rightarrow> operation \<Rightarrow> ('f, 'p) effect" where
  "perform gen this (Compose c) w =
     (case invoke gen this c w of (Inl e, w') \<Rightarrow> (Inl e, w') | (Inr r, w') \<Rightarrow> (Inr (), w'))"
| "perform gen this (SetBkgd v) w = (Inr (), set_bkgd v this w)"
| "perform gen this (SetBackground v) w = set_background gen v this w"
| "perform gen this (SetColor v) w = (Inr (), set_color v this w)"
| "perform gen this (SetHidden v) w = (Inr (), set_hidden v this w)"
| "perform gen this (SetSlideNumber v) w = set_slideNumber v this w"

text \<open>
  A caller that catches each exception and goes on: the world after every operation of the
  list has been tried in turn, whatever its outcome.
\<close>

fun perform_all ::
  "('f, 'p) GenObj \<Rightarrow> ref \<Rightarrow> operation list \<Rightarrow> ('f, 'p) world \<Rightarrow> ('f, 'p) world" where
  "perform_all gen this [] w = w"
| "perform_all gen this (x # xs) w = perform_all gen this xs (snd (perform gen this x w))"

text \<open>What a successful call leaves in the content list, if anything.\<close>

fun is_notes :: "call \<Rightarrow> bool" where
  "is_notes (AddNotes notes) = True"
| "is_notes c = False"

fun built_by :: "call \<Rightarrow> ISlideObject \<Rightarrow> bool" where
  "built_by (AddText t options) obj = (obj = TextObject t (or_empty options))"
| "built_by (AddShape n options) obj = (obj = ShapeObject n (or_empty options))"
| "built_by (AddImage options) obj =
     (case obj of ImageObject ob i \<Rightarrow> ob = options | _ \<Rightarrow> False)"
| "built_by (AddMedia options) obj =
     (case obj of MediaObject ob i \<Rightarrow> ob = options | _ \<Rightarrow> False)"
| "built_by (AddTable tableRows options) obj = (obj = TableObject tableRows (or_empty options))"
| "built_by (AddChart ty dat options) obj =
     (case obj of ChartObject ty' dat' i \<Rightarrow> ty' = ty \<and> dat' = dat | _ \<Rightarrow> False)"
| "built_by (AddXML xml) obj = (obj = RawMarkupObject xml)"
| "built_by (AddNotes notes) obj = False"

text \<open>The relationship identifiers that the content list refers to, in paint order.\<close>

fun obj_rel_id :: "ISlideObject \<Rightarrow> nat option" where
  "obj_rel_id (ImageObject ob i) = Some i"
| "obj_rel_id (MediaObject ob i) = Some i"
| "obj_rel_id (ChartObject ty dat i) = Some i"
| "obj_rel_id obj = None"

definition content_rel_ids :: "ISlideObject list \<Rightarrow> nat list" where
  "content_rel_ids objs = List.map_filter obj_rel_id objs"

text \<open>
  A recording callback, as a test's spy: it does what \<open>f\<close> does on the presentation's
  state and notes the argument of each invocation in a log.
\<close>

definition spy ::
  "(ISlideNumber \<Rightarrow> 'p \<Rightarrow> (error + unit) \<times> 'p)
     \<Rightarrow> ISlideNumber \<Rightarrow> ISlideNumber list \<times> 'p \<Rightarrow> (error + unit) \<times> (ISlideNumber list \<times> 'p)" where
  "spy f v = (\<lambda>(log, p). case f v p of (r, p') \<Rightarrow> (r, (log @ [v], p')))"

section \<open>The relationship invariant\<close>

text \<open>
  The relationship identifiers of a slide, over its three tables together, are the
  numbers from 1 to their count, each once; the identifiers that the content list refers
  to are these numbers in increasing order; and each table lists its entries by
  increasing identifier.
\<close>

definition rels_wf :: "('f, 'p) Slide \<Rightarrow> bool" where
  "rels_wf s =
     (let n = length (all_rel_ids s)
      in distinct (all_rel_ids s) \<and> set (all_rel_ids s) = {1..n} \<and>
         content_rel_ids (data s) = [1..<Suc n] \<and>
         sorted_wrt (<) (map relId (rels s)) \<and>
         sorted_wrt (<) (map relId (relsChart s)) \<and>
         sorted_wrt (<) (map relId (relsMedia s)))"

text \<open>Nothing is removed or reordered: each of the four lists only grows at its end.\<close>

definition grows :: "('f, 'p) Slide \<Rightarrow> ('f, 'p) Slide \<Rightarrow> bool" where
  "grows s s' =
     (prefix (data s) (data s') \<and> prefix (rels s) (rels s') \<and>
      prefix (relsChart s) (relsChart s') \<and> prefix (relsMedia s) (relsMedia s'))"

section \<open>Example inputs\<close>

text \<open>
  A builder module that accepts every call and changes nothing, and one that rejects every
  call and changes nothing: the two simplest modules a Slide can be given.
\<close>

definition accepting_genObj :: "('f, 'p) GenObj" where
  "accepting_genObj =
     \<lparr> addBackgroundDefinition = (\<lambda>v this w. (Inr (), w)),
       addChartDefinition = (\<lambda>this ty dat options w. (Inr (), w)),
       addImageDefinition = (\<lambda>this options w. (Inr (), w)),
       addMediaDefinition = (\<lambda>this options w. (Inr (), w)),
       addNotesDefinition = (\<lambda>this notes w. (Inr (), w)),
       addShapeDefinition = (\<lambda>this shapeName options w. (Inr (), w)),
       addTableDefinition = (\<lambda>this tableRows options layout pres addSlideFn getSlideFn w. (Inr (), w)),
       addTextDefinition = (\<lambda>this text options isPlaceholder w. (Inr (), w)),
       addXMLDefinition = (\<lambda>this xml w. (Inr (), w)) \<rparr>"

definition rejecting_genObj :: "('f, 'p) GenObj" where
  "rejecting_genObj =
     \<lparr> addBackgroundDefinition = (\<lambda>v this w. (Inl ValidationError, w)),
       addChartDefinition = (\<lambda>this ty dat options w. (Inl ValidationError, w)),
       addImageDefinition = (\<lambda>this options w. (Inl ValidationError, w)),
       addMediaDefinition = (\<lambda>this options w. (Inl ValidationError, w)),
       addNotesDefinition = (\<lambda>this notes w. (Inl ValidationError, w)),
       addShapeDefinition = (\<lambda>this shapeName options w. (Inl ValidationError, w)),
       addTableDefinition =
         (\<lambda>this tableRows options layout pres addSlideFn getSlideFn w. (Inl ValidationError, w)),
       addTextDefinition = (\<lambda>this text options isPlaceholder w. (Inl ValidationError, w)),
       addXMLDefinition = (\<lambda>this xml w. (Inl ValidationError, w)) \<rparr>"

text \<open>Two propagation callbacks: one that succeeds and one that throws.\<close>

definition propagate_ok :: "ISlideNumber \<Rightarrow> unit \<Rightarrow> (error + unit) \<times> unit" where
  "propagate_ok v p = (Inr (), p)"

definition propagate_fails :: "ISlideNumber \<Rightarrow> unit \<Rightarrow> (error + unit) \<times> unit" where
  "propagate_fails v p = (Inl (OtherError ''no master''), p)"

definition example_numbering :: ISlideNumber where
  "example_numbering = [(''x'', JNum 1), (''y'', JNum 1)]"

definition example_layout :: ISlideLayout where
  "example_layout =
     \<lparr> layoutName = ''Title'', layoutBkgd = None, layoutColor = None,
       layoutSlideNumberObj = Some example_numbering \<rparr>"

definition example_params :: "(unit, ISlideNumber list \<times> unit) SlideParams" where
  "example_params =
     \<lparr> params_addSlide = (), params_getSlide = (),
       params_presLayout = \<lparr>layoutWidth = 10, layoutHeight = 5\<rparr>,
       params_setSlideNum = spy propagate_ok,
       params_slideId = 267, params_slideRId = 13, params_slideNumber = 12,
       params_slideLayout = Some example_layout \<rparr>"

definition plain_params :: "(unit, ISlideNumber list \<times> unit) SlideParams" where
  "plain_params =
     \<lparr> params_addSlide = (), params_getSlide = (),
       params_presLayout = \<lparr>layoutWidth = 10, layoutHeight = 5\<rparr>,
       params_setSlideNum = spy propagate_fails,
       params_slideId = 256, params_slideRId = 2, params_slideNumber = 1,
       params_slideLayout = None \<rparr>"

text \<open>
  A world with one chart-options object per address, none of them typed yet; the slide at
  every address is freshly constructed from the given parameters.
\<close>

definition world_of ::
  "(unit, ISlideNumber list \<times> unit) SlideParams \<Rightarrow> (unit, ISlideNumber list \<times> unit) world" where
  "world_of params =
     \<lparr> slideHeap = (\<lambda>r. Slide_constructor params),
       chartOptsHeap = (\<lambda>r. \<lparr>lib_type = None, chartProps = []\<rparr>),
       presState = ([], ()) \<rparr>"

definition example_calls :: "call list" where
  "example_calls =
     [AddText (TextString ''Hello'') None,
      AddMedia [(''data'', JStr ''video/mp4;base64,AAAA'')],
      AddNotes ''speak slowly'',
      AddChart (ChartName ''bar'') [JNum 3, JNum 4] None,
      AddImage [(''path'', JStr ''a.png'')]]"

section \<open>Facts about the class itself\<close>

lemmas method_defs = addText_def addShape_def addImage_def addMedia_def addTable_def
  addChart_def addNotes_def addXML_def

lemmas setter_defs = set_bkgd_def set_background_def set_color_def set_hidden_def

lemma digits_small: "n < 10 \<Longrightarrow> digits n = [digit_char n]"
  by (simp add: digits.simps)

lemma digits_large: "\<not> n < 10 \<Longrightarrow> digits n = digits (n div 10) @ [digit_char (n mod 10)]"
  by (subst digits.simps) simp

lemma Slide_constructor_layout:
  "slideLayout (Slide_constructor params) = params_slideLayout params"
  by (cases "params_slideLayout params") (simp_all add: Slide_constructor_def)

lemma Slide_constructor_slideNumberObj:
  "slideNumberObj (Slide_constructor params) =
     (case params_slideLayout params of None \<Rightarrow> None | Some l \<Rightarrow> layoutSlideNumberObj l)"
  by (cases "params_slideLayout params")
     (simp_all add: Slide_constructor_def Let_def split: option.splits)

lemma Slide_constructor_tables:
  "data (Slide_constructor params) = []" "rels (Slide_constructor params) = []"
  "relsChart (Slide_constructor params) = []" "relsMedia (Slide_constructor params) = []"
  by (simp_all add: Slide_constructor_def Let_def)

lemma update_slide_heap:
  "slideHeap (update_slide this f w) x = (if x = this then f (slideHeap w this) else slideHeap w x)"
  by (simp add: update_slide_def)

lemma update_slide_rest:
  "chartOptsHeap (update_slide this f w) = chartOptsHeap w"
  "presState (update_slide this f w) = presState w"
  by (simp_all add: update_slide_def)

lemma return_this_Inr: "fst (return_this this r) = Inr x \<Longrightarrow> x = this"
  by (auto simp: return_this_def split: prod.splits sum.splits)

lemma return_this_world: "snd (return_this this r) = snd r"
  by (auto simp: return_this_def split: prod.splits sum.splits)

lemma return_this_error: "fst r = Inl e \<Longrightarrow> fst (return_this this r) = Inl e"
  by (auto simp: return_this_def split: prod.splits sum.splits)

lemma world_of_slide: "slideHeap (world_of params) r = Slide_constructor params"
  by (simp add: world_of_def)

lemma digit_value_digit_char: "d < 10 \<Longrightarrow> digit_value (digit_char d) = d"
proof -
  assume "d < 10"
  then have "d \<in> {0, 1, 2, 3, 4, 5, 6, 7, 8, 9}" by auto
  then show ?thesis by (auto simp: digit_value_def digit_char_def)
qed

lemma read_digits_snoc: "read_digits (cs @ [c]) = 10 * read_digits cs + digit_value c"
  by (simp add: read_digits_def)

lemma read_digits_digits: "read_digits (digits n) = n"
proof (induction n rule: digits.induct)
  case (1 n)
  show ?case
  proof (cases "n < 10")
    case True
    then show ?thesis
      by (simp add: digits_small read_digits_def digit_value_digit_char)
  next
    case False
    then have "read_digits (digits n) = 10 * read_digits (digits (n div 10)) + digit_value (digit_char (n mod 10))"
      by (simp add: digits_large read_digits_snoc)
    also have "\<dots> = 10 * (n div 10) + n mod 10"
      using "1.IH"[OF False] by (simp add: digit_value_digit_char)
    also have "\<dots> = n" by simp
    finally show ?thesis .
  qed
qed

lemma Number_toString_safe: "isSafeInteger n \<Longrightarrow> Number_toString n = decimal n"
  by (simp add: Number_toString_def)

text \<open>
  C8. A constructed Slide has an empty content list and three empty relationship tables;
  its name is \<^verbatim>\<open>Slide\<close>, a space, and the given slide number in decimal, for every slide
  number that is a safe integer; its layout is the given layout, or null when none is
  given; and its numbering spec is the layout's when the layout exists and defines one,
  and null otherwise.
\<close>

theorem C8_constructor_postconditions:
  "data (Slide_constructor params) = [] \<and>
   rels (Slide_constructor params) = [] \<and>
   relsChart (Slide_constructor params) = [] \<and>
   relsMedia (Slide_constructor params) = [] \<and>
   (isSafeInteger (params_slideNumber params) \<longrightarrow>
      name (Slide_constructor params) = ''Slide '' @ decimal (params_slideNumber params)) \<and>
   slideLayout (Slide_constructor params) = params_slideLayout params \<and>
   slideNumberObj (Slide_constructor params) =
     (case params_slideLayout params of None \<Rightarrow> None | Some l \<Rightarrow> layoutSlideNumberObj l)"
proof -
  have nm: "isSafeInteger (params_slideNumber params) \<longrightarrow>
      name (Slide_constructor params) = ''Slide '' @ decimal (params_slideNumber params)"
    by (simp add: Slide_constructor_def Let_def Number_toString_safe)
  show ?thesis
    using Slide_constructor_tables [of params] nm Slide_constructor_layout [of params]
      Slide_constructor_slideNumberObj [of params]
    by blast
qed

text \<open>
  The postconditions at two inputs: slide 12 on a layout that defines a numbering spec,
  and slide 1 without a layout.
\<close>

theorem C8_constructor_postconditions_witness:
  "isSafeInteger (params_slideNumber example_params) \<and>
   data (Slide_constructor example_params) = [] \<and>
   rels (Slide_constructor example_params) = [] \<and>
   relsChart (Slide_constructor example_params) = [] \<and>
   relsMedia (Slide_constructor example_params) = [] \<and>
   name (Slide_constructor example_params) = ''Slide 12'' \<and>
   slideLayout (Slide_constructor example_params) = Some example_layout \<and>
   slideNumberObj (Slide_constructor example_params) = Some example_numbering \<and>
   isSafeInteger (params_slideNumber plain_params) \<and>
   name (Slide_constructor plain_params) = ''Slide 1'' \<and>
   slideLayout (Slide_constructor plain_params) = None \<and>
   slideNumberObj (Slide_constructor plain_params) = None"
proof -
  have twelve: "decimal 12 = ''12''"
    by (simp add: decimal_def digits_large digits_small digit_char_def)
  have one: "decimal 1 = ''1''"
    by (simp add: decimal_def digits_small digit_char_def)
  have p1: "params_slideNumber example_params = 12"
    "params_slideLayout example_params = Some example_layout"
    by (simp_all add: example_params_def)
  have p2: "params_slideNumber plain_params = 1" "params_slideLayout plain_params = None"
    by (simp_all add: plain_params_def)
  have safe: "isSafeInteger 12" "isSafeInteger 1"
    by (simp_all add: isSafeInteger_def)
  have l: "layoutSlideNumberObj example_layout = Some example_numbering"
    by (simp add: example_layout_def)
  show ?thesis
    using C8_constructor_postconditions [of example_params]
      C8_constructor_postconditions [of plain_params]
    by (simp add: p1 p2 l twelve one safe)
qed

text \<open>
  The legacy colour on the code alone: \<^verbatim>\<open>bkgd\<close> reads back what was written, and the
  \<^verbatim>\<open>background\<close> setter writes no field itself, so after it the Slide is as the
  background builder left it.
\<close>

lemma bkgd_read_back: "get_bkgd this (set_bkgd c this w) = Some c"
  by (simp add: get_bkgd_def set_bkgd_def update_slide_heap)

lemma set_background_is_builder_call:
  "set_background gen v this w = addBackgroundDefinition gen v this w"
  by (simp add: set_background_def)

text \<open>
  C7. Each of the eight composition methods, when it succeeds, returns the reference it
  was invoked on, whatever the builders do.
\<close>

theorem C7_composition_returns_this:
  "(fst (addText gen this t topts w) = Inr r \<longrightarrow> r = this) \<and>
   (fst (addShape gen this n sopts w) = Inr r \<longrightarrow> r = this) \<and>
   (fst (addImage gen this iopts w) = Inr r \<longrightarrow> r = this) \<and>
   (fst (addMedia gen this mopts w) = Inr r \<longrightarrow> r = this) \<and>
   (fst (addTable gen this tableRows tabopts w) = Inr r \<longrightarrow> r = this) \<and>
   (fst (addChart gen this ty dat copts w) = Inr r \<longrightarrow> r = this) \<and>
   (fst (addNotes gen this nts w) = Inr r \<longrightarrow> r = this) \<and>
   (fst (addXML gen this xml w) = Inr r \<longrightarrow> r = this)"
  unfolding method_defs Let_def
  by (intro conjI impI; erule return_this_Inr)

lemma accepting_calls:
  "fst (addText accepting_genObj this t topts w) = Inr this"
  "fst (addShape accepting_genObj this n sopts w) = Inr this"
  "fst (addImage accepting_genObj this iopts w) = Inr this"
  "fst (addMedia accepting_genObj this mopts w) = Inr this"
  "fst (addTable accepting_genObj this tableRows tabopts w) = Inr this"
  "fst (addChart accepting_genObj this ty dat copts w) = Inr this"
  "fst (addNotes accepting_genObj this nts w) = Inr this"
  "fst (addXML accepting_genObj this xml w) = Inr this"
  by (simp_all add: method_defs accepting_genObj_def return_this_def Let_def)

theorem C7_composition_returns_this_witness:
  "fst (addText accepting_genObj 4 (TextString ''Hello'') None (world_of example_params)) = Inr 4 \<and>
   fst (addShape accepting_genObj 4 ''rect'' None (world_of example_params)) = Inr 4 \<and>
   fst (addImage accepting_genObj 4 [(''path'', JStr ''a.png'')] (world_of example_params)) = Inr 4 \<and>
   fst (addMedia accepting_genObj 4 [(''path'', JStr ''a.mp4'')] (world_of example_params)) = Inr 4 \<and>
   fst (addTable accepting_genObj 4 [[JStr ''cell'']] None (world_of example_params)) = Inr 4 \<and>
   fst (addChart accepting_genObj 4 (ChartName ''bar'') [] (Some 7) (world_of example_params)) = Inr 4 \<and>
   fst (addNotes accepting_genObj 4 ''speak slowly'' (world_of example_params)) = Inr 4 \<and>
   fst (addXML accepting_genObj 4 ''<p:sp/>'' (world_of example_params)) = Inr 4"
  using C7_composition_returns_this [of accepting_genObj 4 "TextString ''Hello''" None
      "world_of example_params" 4 "''rect''" None "[(''path'', JStr ''a.png'')]"
      "[(''path'', JStr ''a.mp4'')]" "[[JStr ''cell'']]" None "ChartName ''bar''" "[]" "Some 7"
      "''speak slowly''" "''<p:sp/>''"]
  by (simp add: accepting_calls)

text \<open>
  C9. \<^verbatim>\<open>addChart\<close> with an options object writes the chart type into the \<^verbatim>\<open>_type\<close>
  field of that very object before it calls the builder: the builder runs in a world that
  differs from the caller's in this one field and in nothing else.
\<close>

theorem C9_addChart_writes_callers_options:
  "\<exists>w1. addChart gen this ty dat (Some a) w =
            return_this this (addChartDefinition gen this ty dat (Some a) w1) \<and>
         lib_type (chartOptsHeap w1 a) = Some ty \<and>
         chartProps (chartOptsHeap w1 a) = chartProps (chartOptsHeap w a) \<and>
         (\<forall>b. b \<noteq> a \<longrightarrow> chartOptsHeap w1 b = chartOptsHeap w b) \<and>
         slideHeap w1 = slideHeap w \<and> presState w1 = presState w"
proof -
  let ?w1 = "w\<lparr>chartOptsHeap := (chartOptsHeap w)(a := (chartOptsHeap w a)\<lparr>lib_type := Some ty\<rparr>)\<rparr>"
  have "addChart gen this ty dat (Some a) w =
      return_this this (addChartDefinition gen this ty dat (Some a) ?w1)"
    by (simp add: addChart_def Let_def)
  moreover have "lib_type (chartOptsHeap ?w1 a) = Some ty" by simp
  moreover have "chartProps (chartOptsHeap ?w1 a) = chartProps (chartOptsHeap w a)" by simp
  moreover have "\<forall>b. b \<noteq> a \<longrightarrow> chartOptsHeap ?w1 b = chartOptsHeap w b" by simp
  moreover have "slideHeap ?w1 = slideHeap w \<and> presState ?w1 = presState w" by simp
  ultimately show ?thesis by blast
qed

text \<open>
  The effect is visible to the caller even when the builder rejects the chart and changes
  nothing: the options object had no type before the call and has one after it.
\<close>

theorem C9_addChart_writes_callers_options_witness:
  "lib_type (chartOptsHeap (world_of example_params) 7) = None \<and>
   fst (addChart rejecting_genObj 0 (ChartName ''bar'') [] (Some 7) (world_of example_params))
     = Inl ValidationError \<and>
   lib_type (chartOptsHeap
      (snd (addChart rejecting_genObj 0 (ChartName ''bar'') [] (Some 7) (world_of example_params))) 7)
     = Some (ChartName ''bar'')"
proof -
  obtain w1 where
    call: "addChart rejecting_genObj 0 (ChartName ''bar'') [] (Some 7) (world_of example_params) =
       return_this 0 (addChartDefinition rejecting_genObj 0 (ChartName ''bar'') [] (Some 7) w1)"
    and ty: "lib_type (chartOptsHeap w1 7) = Some (ChartName ''bar'')"
    using C9_addChart_writes_callers_options
      [of rejecting_genObj 0 "ChartName ''bar''" "[]" 7 "world_of example_params"]
    by blast
  have rej: "addChartDefinition rejecting_genObj 0 (ChartName ''bar'') [] (Some 7) w1 =
      (Inl ValidationError, w1)"
    by (simp add: rejecting_genObj_def)
  have before: "lib_type (chartOptsHeap (world_of example_params) 7) = None"
    by (simp add: world_of_def)
  show ?thesis
    using before ty by (simp add: call rej return_this_def)
qed

section \<open>Writing the slide number\<close>

lemma set_slideNumber_slide:
  "slideHeap (snd (set_slideNumber v this w)) =
     (slideHeap w)(this := (slideHeap w this)\<lparr>slideNumberObj := Some v, priv_slideNumber := Some v\<rparr>)"
  by (auto simp: set_slideNumber_def update_slide_def Let_def split: prod.splits)

lemma set_slideNumber_outcome:
  "priv_setSlideNum (slideHeap w this) v (presState w) = (r, p) \<Longrightarrow>
     fst (set_slideNumber v this w) = r \<and> presState (snd (set_slideNumber v this w)) = p \<and>
     chartOptsHeap (snd (set_slideNumber v this w)) = chartOptsHeap w"
  by (auto simp: set_slideNumber_def update_slide_def Let_def split: prod.splits)

lemma spy_log: "fst (snd (spy f v lp)) = fst lp @ [v]"
  by (simp add: spy_def split: prod.splits)

text \<open>
  C2. A write of \<^verbatim>\<open>slideNumber\<close> stores the value (\<^verbatim>\<open>slideNumberObj\<close> becomes the value
  written) and invokes the propagation callback once with it, whether or not the callback
  throws: a recording callback has one more entry, the value written. A second write of the
  same value leaves every Slide as the first write left it and adds one more entry. The
  callback works on the presentation's state, its master and layouts, not on the Slide.
\<close>

theorem C2_slideNumber_write_propagates_once:
  assumes cb: "priv_setSlideNum (slideHeap w this) = spy f"
  shows "let w1 = snd (set_slideNumber v this w); w2 = snd (set_slideNumber v this w1) in
     slideNumberObj (slideHeap w1 this) = Some v \<and>
     fst (presState w1) = fst (presState w) @ [v] \<and>
     slideHeap w2 = slideHeap w1 \<and>
     fst (presState w2) = fst (presState w1) @ [v]"
proof -
  let ?w1 = "snd (set_slideNumber v this w)"
  let ?w2 = "snd (set_slideNumber v this ?w1)"
  have heap1: "slideHeap ?w1 =
      (slideHeap w)(this := (slideHeap w this)\<lparr>slideNumberObj := Some v, priv_slideNumber := Some v\<rparr>)"
    by (rule set_slideNumber_slide)
  have stored: "slideNumberObj (slideHeap ?w1 this) = Some v"
    by (simp add: heap1)
  have cb1: "priv_setSlideNum (slideHeap ?w1 this) = spy f"
    by (simp add: heap1 cb)
  have log1: "fst (presState ?w1) = fst (presState w) @ [v]"
    using set_slideNumber_outcome [of w this v "fst (spy f v (presState w))" "snd (spy f v (presState w))"]
    by (simp add: cb spy_log)
  have log2: "fst (presState ?w2) = fst (presState ?w1) @ [v]"
    using set_slideNumber_outcome [of ?w1 this v "fst (spy f v (presState ?w1))" "snd (spy f v (presState ?w1))"]
    by (simp add: cb1 spy_log)
  have heap2: "slideHeap ?w2 = slideHeap ?w1"
    by (simp add: set_slideNumber_slide [of v this ?w1] heap1)
  show ?thesis
    unfolding Let_def using stored log1 heap2 log2 by blast
qed

theorem C2_slideNumber_write_propagates_once_witness:
  "priv_setSlideNum (slideHeap (world_of example_params) 0) = spy propagate_ok \<and>
   (let w1 = snd (set_slideNumber [(''x'', JNum 3)] 0 (world_of example_params));
        w2 = snd (set_slideNumber [(''x'', JNum 3)] 0 w1) in
     slideNumberObj (slideHeap w1 0) = Some [(''x'', JNum 3)] \<and>
     fst (presState w1) = fst (presState (world_of example_params)) @ [[(''x'', JNum 3)]] \<and>
     slideHeap w2 = slideHeap w1 \<and>
     fst (presState w2) = fst (presState w1) @ [[(''x'', JNum 3)]])"
proof -
  have cb: "priv_setSlideNum (slideHeap (world_of example_params) 0) = spy propagate_ok"
    by (simp add: world_of_def Slide_constructor_def example_params_def)
  show ?thesis
    using cb C2_slideNumber_write_propagates_once [OF cb, of "[(''x'', JNum 3)]"]
    by (rule conjI)
qed

text \<open>
  C3, as the code has it. When the propagation callback throws, the write of
  \<^verbatim>\<open>slideNumber\<close> throws the same error to its caller, and the two assignments made before
  the call stand: \<^verbatim>\<open>slideNumberObj\<close> and the stored \<^verbatim>\<open>slideNumber\<close> hold the new value.
  Every other field of the Slide, every other Slide and every chart-options object are as
  before; the presentation's state is as the callback left it.
\<close>

theorem C3_failed_propagation_keeps_new_number:
  assumes "priv_setSlideNum (slideHeap w this) v (presState w) = (Inl e, p)"
  shows "set_slideNumber v this w =
     (Inl e,
      w\<lparr>slideHeap :=
          (slideHeap w)(this := (slideHeap w this)\<lparr>slideNumberObj := Some v, priv_slideNumber := Some v\<rparr>),
        presState := p\<rparr>)"
  using assms
  by (auto simp: set_slideNumber_def update_slide_def Let_def split: prod.splits)

lemma plain_callback_fails:
  "priv_setSlideNum (slideHeap (world_of plain_params) 0) example_numbering
     (presState (world_of plain_params)) = (Inl (OtherError ''no master''), ([example_numbering], ()))"
  by (simp add: world_of_def Slide_constructor_def plain_params_def spy_def propagate_fails_def)

theorem C3_failed_propagation_keeps_new_number_witness:
  "priv_setSlideNum (slideHeap (world_of plain_params) 0) example_numbering
     (presState (world_of plain_params)) = (Inl (OtherError ''no master''), ([example_numbering], ())) \<and>
   set_slideNumber example_numbering 0 (world_of plain_params) =
     (Inl (OtherError ''no master''),
      (world_of plain_params)\<lparr>slideHeap :=
          (slideHeap (world_of plain_params))(0 := (slideHeap (world_of plain_params) 0)
             \<lparr>slideNumberObj := Some example_numbering, priv_slideNumber := Some example_numbering\<rparr>),
        presState := ([example_numbering], ())\<rparr>)"
  using plain_callback_fails C3_failed_propagation_keeps_new_number [OF plain_callback_fails]
  by (rule conjI)

text \<open>
  The claim as it was stated fails: on a slide without a numbering spec whose callback
  throws, the write throws and \<^verbatim>\<open>slideNumberObj\<close> is no longer what it was.
\<close>

theorem C3_rollback_counterexample:
  "fst (set_slideNumber example_numbering 0 (world_of plain_params)) = Inl (OtherError ''no master'') \<and>
   slideNumberObj (slideHeap (world_of plain_params) 0) = None \<and>
   slideNumberObj (slideHeap (snd (set_slideNumber example_numbering 0 (world_of plain_params))) 0)
     = Some example_numbering"
proof -
  have out: "fst (set_slideNumber example_numbering 0 (world_of plain_params)) =
      Inl (OtherError ''no master'')"
    using set_slideNumber_outcome [OF plain_callback_fails] by simp
  have before: "slideNumberObj (slideHeap (world_of plain_params) 0) = None"
    by (simp add: world_of_def Slide_constructor_def plain_params_def)
  have after: "slideNumberObj
      (slideHeap (snd (set_slideNumber example_numbering 0 (world_of plain_params))) 0) =
      Some example_numbering"
    by (simp add: set_slideNumber_slide)
  show ?thesis using out before after by blast
qed

section \<open>Facts about the modelled builders\<close>

lemmas spec_defs = spec_genObj_def spec_addTextDefinition_def spec_addShapeDefinition_def
  spec_addImageDefinition_def spec_addMediaDefinition_def spec_addTableDefinition_def
  spec_addChartDefinition_def spec_addNotesDefinition_def spec_addXMLDefinition_def
  spec_addBackgroundDefinition_def spec_addResource_def

subsection \<open>The content list\<close>

lemma invoke_spec_ref: "fst (invoke spec_genObj this c w) = Inr r \<Longrightarrow> r = this"
  by (cases c) (auto simp: method_defs return_this_def Let_def split: prod.splits sum.splits)

lemma invoke_spec_success:
  assumes "invoke spec_genObj this c w = (Inr r, w')"
  shows "if is_notes c then data (slideHeap w' this) = data (slideHeap w this)
         else \<exists>obj. built_by c obj \<and> data (slideHeap w' this) = data (slideHeap w this) @ [obj]"
  using assms
  by (cases c)
     (auto simp: method_defs spec_defs return_this_def update_slide_def Let_def
                 push_content_def register_def
           split: prod.splits sum.splits option.splits rel_kind.splits if_splits)

lemma chain_spec_data:
  "chain spec_genObj this cs w = (Inr r, w') \<Longrightarrow>
     \<exists>objs. data (slideHeap w' this) = data (slideHeap w this) @ objs \<and>
            list_all2 built_by (filter (\<lambda>c. \<not> is_notes c) cs) objs"
proof (induction cs arbitrary: w)
  case Nil
  then show ?case by simp
next
  case (Cons c cs)
  from Cons.prems obtain r1 w1 where
    step: "invoke spec_genObj this c w = (Inr r1, w1)" and
    rest: "chain spec_genObj r1 cs w1 = (Inr r, w')"
    by (auto split: prod.splits sum.splits)
  from step have r1: "r1 = this" using invoke_spec_ref[of this c w r1] by simp
  from Cons.IH[of w1] rest r1 obtain objs where
    objs: "data (slideHeap w' this) = data (slideHeap w1 this) @ objs"
      "list_all2 built_by (filter (\<lambda>c. \<not> is_notes c) cs) objs"
    by auto
  show ?case
  proof (cases "is_notes c")
    case True
    with invoke_spec_success[OF step] objs show ?thesis by auto
  next
    case False
    with invoke_spec_success[OF step] obtain obj where
      "built_by c obj" "data (slideHeap w1 this) = data (slideHeap w this) @ [obj]" by auto
    with objs False show ?thesis by (intro exI[of _ "obj # objs"]) simp
  qed
qed

subsection \<open>The relationship tables\<close>

lemma fold_max_upto: "set xs = {1..n} \<Longrightarrow> fold max xs (0::nat) = n"
proof -
  assume a: "set xs = {1..n}"
  have "fold max xs 0 = Max (set (0 # xs))" by (rule Max.set_eq_fold[symmetric])
  also have "set (0 # xs) = {0..n}" using a by auto
  also have "Max {0..n} = n" by (rule Max_eqI) auto
  finally show ?thesis .
qed

lemma next_rel_id_wf: "rels_wf s \<Longrightarrow> next_rel_id s = Suc (length (all_rel_ids s))"
  by (simp add: rels_wf_def next_rel_id_def Let_def fold_max_upto)

lemma content_rel_ids_snoc:
  "content_rel_ids (objs @ [obj]) =
     content_rel_ids objs @ (case obj_rel_id obj of None \<Rightarrow> [] | Some i \<Rightarrow> [i])"
  by (simp add: content_rel_ids_def List.map_filter_def split: option.splits)

lemma register_tables:
  assumes "register k t s = (i, s')"
  shows "i = next_rel_id s \<and> data s' = data s \<and>
    rels s' = rels s @ (if k = ImageRel then [\<lparr>relId = i, relKind = k, relTarget = t\<rparr>] else []) \<and>
    relsChart s' = relsChart s @ (if k = ChartRel then [\<lparr>relId = i, relKind = k, relTarget = t\<rparr>] else []) \<and>
    relsMedia s' = relsMedia s @ (if k = MediaRel then [\<lparr>relId = i, relKind = k, relTarget = t\<rparr>] else [])"
  using assms by (cases k) (auto simp: register_def Let_def)

lemma register_ids:
  assumes "register k t s = (i, s')"
  shows "\<exists>xs ys. all_rel_ids s = xs @ ys \<and> all_rel_ids s' = xs @ i # ys"
proof (cases k)
  case ImageRel
  with register_tables[OF assms] have
    "all_rel_ids s = map relId (rels s) @ (map relId (relsChart s) @ map relId (relsMedia s))"
    "all_rel_ids s' = map relId (rels s) @ i # (map relId (relsChart s) @ map relId (relsMedia s))"
    by (simp_all add: all_rel_ids_def)
  then show ?thesis by blast
next
  case ChartRel
  with register_tables[OF assms] have
    "all_rel_ids s = (map relId (rels s) @ map relId (relsChart s)) @ map relId (relsMedia s)"
    "all_rel_ids s' = (map relId (rels s) @ map relId (relsChart s)) @ i # map relId (relsMedia s)"
    by (simp_all add: all_rel_ids_def)
  then show ?thesis by blast
next
  case MediaRel
  with register_tables[OF assms] have
    "all_rel_ids s = all_rel_ids s @ []" "all_rel_ids s' = all_rel_ids s @ i # []"
    by (simp_all add: all_rel_ids_def)
  then show ?thesis by blast
qed

lemma sorted_snoc_if:
  "sorted_wrt (<) xs \<Longrightarrow> \<forall>x\<in>set xs. x < (i::nat) \<Longrightarrow>
     sorted_wrt (<) (xs @ (if c then [i] else []))"
  by (simp add: sorted_wrt_append)

lemma rels_wf_register:
  assumes wf: "rels_wf s" and reg: "register k t s = (i, s')" and obj: "obj_rel_id obj = Some i"
  shows "rels_wf (push_content obj s')"
proof -
  let ?n = "length (all_rel_ids s)"
  from register_ids[OF reg] obtain xs ys where
    old: "all_rel_ids s = xs @ ys" and new: "all_rel_ids s' = xs @ i # ys"
    by blast
  from register_tables[OF reg] have i0: "i = next_rel_id s" and dat: "data s' = data s"
    by simp_all
  have i: "i = Suc ?n" using i0 next_rel_id_wf[OF wf] by simp
  have ids: "all_rel_ids (push_content obj s') = all_rel_ids s'"
    by (simp add: push_content_def all_rel_ids_def)
  from wf have d0: "distinct (xs @ ys)" and s0: "set (xs @ ys) = {1..?n}"
    and c0: "content_rel_ids (data s) = [1..<Suc ?n]"
    by (simp_all add: rels_wf_def Let_def old)
  have fresh: "i \<notin> set (xs @ ys)" using s0 i by simp
  have d: "distinct (all_rel_ids s')"
    using d0 fresh by (auto simp: new)
  have "set (all_rel_ids s') = insert (Suc ?n) (set (xs @ ys))"
    by (simp add: new i Un_commute insert_commute)
  also have "\<dots> = insert (Suc ?n) {1..?n}" by (simp only: s0)
  also have "\<dots> = {1..Suc ?n}" by (simp add: atLeastAtMostSuc_conv)
  finally have st: "set (all_rel_ids s') = {1..Suc ?n}" .
  have len: "length (all_rel_ids s') = Suc ?n" by (simp add: new old)
  have c: "content_rel_ids (data (push_content obj s')) = [1..<Suc (Suc ?n)]"
    using c0 obj i dat by (simp add: push_content_def content_rel_ids_snoc)
  have below: "\<forall>x\<in>set (all_rel_ids s). x < i"
    using s0 i by (simp add: old)
  then have b1: "\<forall>x\<in>set (map relId (rels s)). x < i"
    and b2: "\<forall>x\<in>set (map relId (relsChart s)). x < i"
    and b3: "\<forall>x\<in>set (map relId (relsMedia s)). x < i"
    by (simp_all add: all_rel_ids_def)
  from wf have so: "sorted_wrt (<) (map relId (rels s))"
    "sorted_wrt (<) (map relId (relsChart s))" "sorted_wrt (<) (map relId (relsMedia s))"
    by (simp_all add: rels_wf_def Let_def)
  have t1: "map relId (rels (push_content obj s')) =
      map relId (rels s) @ (if k = ImageRel then [i] else [])"
    and t2: "map relId (relsChart (push_content obj s')) =
      map relId (relsChart s) @ (if k = ChartRel then [i] else [])"
    and t3: "map relId (relsMedia (push_content obj s')) =
      map relId (relsMedia s) @ (if k = MediaRel then [i] else [])"
    using register_tables[OF reg] by (simp_all add: push_content_def)
  have sorted3: "sorted_wrt (<) (map relId (rels (push_content obj s')))"
    "sorted_wrt (<) (map relId (relsChart (push_content obj s')))"
    "sorted_wrt (<) (map relId (relsMedia (push_content obj s')))"
    unfolding t1 t2 t3
    by (rule sorted_snoc_if[OF so(1) b1], rule sorted_snoc_if[OF so(2) b2],
        rule sorted_snoc_if[OF so(3) b3])
  show ?thesis
    unfolding rels_wf_def Let_def ids len using d st c sorted3 by simp
qed

lemma rels_wf_push_plain:
  "rels_wf s \<Longrightarrow> obj_rel_id obj = None \<Longrightarrow> rels_wf (push_content obj s)"
  by (simp add: rels_wf_def push_content_def all_rel_ids_def content_rel_ids_snoc Let_def)

lemma rels_wf_cong:
  "data s' = data s \<Longrightarrow> rels s' = rels s \<Longrightarrow> relsChart s' = relsChart s \<Longrightarrow>
     relsMedia s' = relsMedia s \<Longrightarrow> rels_wf s' = rels_wf s"
  by (simp add: rels_wf_def all_rel_ids_def)

lemma rels_wf_fresh: "rels_wf (Slide_constructor params)"
  by (simp add: rels_wf_def Slide_constructor_def all_rel_ids_def content_rel_ids_def
      List.map_filter_def Let_def)

lemma invoke_spec_wf:
  assumes "rels_wf (slideHeap w x)"
  shows "rels_wf (slideHeap (snd (invoke spec_genObj this c w)) x)"
proof (cases c)
  case (AddImage options)
  then show ?thesis using assms
    by (auto simp: method_defs spec_defs return_this_def update_slide_heap
          intro: rels_wf_register split: option.splits prod.splits)
next
  case (AddMedia options)
  then show ?thesis using assms
    by (auto simp: method_defs spec_defs return_this_def update_slide_heap
          intro: rels_wf_register split: option.splits prod.splits)
next
  case (AddChart ty dat options)
  then show ?thesis using assms
    by (auto simp: method_defs spec_defs return_this_def update_slide_heap Let_def
          intro: rels_wf_register split: option.splits prod.splits)
next
  case (AddNotes nts)
  have "rels_wf (slideHeap (snd (invoke spec_genObj this (AddNotes nts) w)) x) =
      rels_wf (slideHeap w x)"
    by (rule rels_wf_cong)
       (simp_all add: method_defs spec_defs return_this_def update_slide_heap)
  with AddNotes assms show ?thesis by simp
qed (use assms in \<open>auto simp: method_defs spec_defs return_this_def update_slide_heap Let_def
          intro: rels_wf_push_plain\<close>)

lemma perform_spec_wf:
  assumes "rels_wf (slideHeap w x)"
  shows "rels_wf (slideHeap (snd (perform spec_genObj this op w)) x)"
proof (cases op)
  case (Compose c)
  have "snd (perform spec_genObj this (Compose c) w) = snd (invoke spec_genObj this c w)"
    by (simp split: prod.splits sum.splits)
  with Compose invoke_spec_wf[OF assms] show ?thesis by simp
next
  case (SetSlideNumber v)
  have "rels_wf (slideHeap (snd (perform spec_genObj this (SetSlideNumber v) w)) x) =
      rels_wf (slideHeap w x)"
    by (rule rels_wf_cong) (simp_all add: set_slideNumber_slide)
  with SetSlideNumber assms show ?thesis by simp
next
  case (SetBkgd v)
  have "rels_wf (slideHeap (snd (perform spec_genObj this (SetBkgd v) w)) x) =
      rels_wf (slideHeap w x)"
    by (rule rels_wf_cong) (simp_all add: setter_defs update_slide_heap)
  with SetBkgd assms show ?thesis by simp
next
  case (SetBackground v)
  have "rels_wf (slideHeap (snd (perform spec_genObj this (SetBackground v) w)) x) =
      rels_wf (slideHeap w x)"
    by (rule rels_wf_cong) (simp_all add: setter_defs spec_defs update_slide_heap)
  with SetBackground assms show ?thesis by simp
next
  case (SetColor v)
  have "rels_wf (slideHeap (snd (perform spec_genObj this (SetColor v) w)) x) =
      rels_wf (slideHeap w x)"
    by (rule rels_wf_cong) (simp_all add: setter_defs update_slide_heap)
  with SetColor assms show ?thesis by simp
next
  case (SetHidden v)
  have "rels_wf (slideHeap (snd (perform spec_genObj this (SetHidden v) w)) x) =
      rels_wf (slideHeap w x)"
    by (rule rels_wf_cong) (simp_all add: setter_defs update_slide_heap)
  with SetHidden assms show ?thesis by simp
qed

lemma perform_all_spec_wf:
  "rels_wf (slideHeap w x) \<Longrightarrow> rels_wf (slideHeap (perform_all spec_genObj this ops w) x)"
  by (induction ops arbitrary: w) (simp_all add: perform_spec_wf)

subsection \<open>Nothing is removed\<close>

lemma grows_refl: "grows s s"
  by (simp add: grows_def)

lemma grows_push: "grows s s' \<Longrightarrow> grows s (push_content obj s')"
  by (auto simp: grows_def push_content_def prefix_def)

lemma grows_register: "register k t s = (i, s') \<Longrightarrow> grows s s'"
  using register_tables[of k t s i s'] by (simp add: grows_def)

lemma invoke_spec_grows:
  "grows (slideHeap w x) (slideHeap (snd (invoke spec_genObj this c w)) x)"
proof (cases c)
  case (AddNotes nts)
  then show ?thesis
    by (auto simp: method_defs spec_defs return_this_def update_slide_heap grows_def)
qed (auto simp: method_defs spec_defs return_this_def update_slide_heap Let_def grows_refl
       intro: grows_push grows_register split: option.splits prod.splits)

lemma perform_spec_grows:
  "grows (slideHeap w x) (slideHeap (snd (perform spec_genObj this op w)) x)"
proof (cases op)
  case (Compose c)
  have "snd (perform spec_genObj this (Compose c) w) = snd (invoke spec_genObj this c w)"
    by (simp split: prod.splits sum.splits)
  with Compose invoke_spec_grows[of w x this c] show ?thesis by simp
next
  case (SetSlideNumber v)
  then show ?thesis by (simp add: set_slideNumber_slide grows_def)
qed (auto simp: setter_defs spec_defs update_slide_heap grows_def)

section \<open>Claims settled against the modelled builders\<close>

text \<open>
  C1. On a freshly constructed Slide, after a chain of composition calls that all succeed,
  the content list holds one entry per call other than \<^verbatim>\<open>addNotes\<close>, each built by its
  call, in call order; its length is the number of these calls. No public operation
  removes or reorders an entry: the list before is a prefix of the list after.
  \<^verbatim>\<open>addNotes\<close> writes the notes slot and leaves the content list as it was.
\<close>

theorem C1_content_in_call_order:
  assumes fresh: "slideHeap w this = Slide_constructor params"
    and ok: "fst (chain spec_genObj this cs w) = Inr r"
  shows "list_all2 built_by (filter (\<lambda>c. \<not> is_notes c) cs)
           (data (slideHeap (snd (chain spec_genObj this cs w)) this)) \<and>
         length (data (slideHeap (snd (chain spec_genObj this cs w)) this)) =
           length (filter (\<lambda>c. \<not> is_notes c) cs) \<and>
         prefix (data (slideHeap v x)) (data (slideHeap (snd (perform spec_genObj t op v)) x)) \<and>
         data (slideHeap (snd (addNotes spec_genObj t nts v)) x) = data (slideHeap v x) \<and>
         notesSlot (slideHeap (snd (addNotes spec_genObj t nts v)) t) = Some nts"
proof -
  let ?w' = "snd (chain spec_genObj this cs w)"
  from ok have "chain spec_genObj this cs w = (Inr r, ?w')"
    by (simp add: prod_eq_iff)
  from chain_spec_data[OF this] obtain objs where
    objs: "data (slideHeap ?w' this) = data (slideHeap w this) @ objs"
      "list_all2 built_by (filter (\<lambda>c. \<not> is_notes c) cs) objs"
    by blast
  have empty: "data (slideHeap w this) = []"
    by (simp add: fresh Slide_constructor_tables)
  have order: "list_all2 built_by (filter (\<lambda>c. \<not> is_notes c) cs) (data (slideHeap ?w' this))"
    using objs empty by simp
  then have len: "length (data (slideHeap ?w' this)) = length (filter (\<lambda>c. \<not> is_notes c) cs)"
    by (simp add: list_all2_lengthD)
  have keep: "prefix (data (slideHeap v x)) (data (slideHeap (snd (perform spec_genObj t op v)) x))"
    using perform_spec_grows[of v x t op] by (simp add: grows_def)
  have notes1: "data (slideHeap (snd (addNotes spec_genObj t nts v)) x) = data (slideHeap v x)"
    by (simp add: addNotes_def spec_defs return_this_def update_slide_heap)
  have notes2: "notesSlot (slideHeap (snd (addNotes spec_genObj t nts v)) t) = Some nts"
    by (simp add: addNotes_def spec_defs return_this_def update_slide_heap)
  show ?thesis using order len keep notes1 notes2 by blast
qed

lemma example_chain_data:
  "fst (chain spec_genObj 0 example_calls (world_of example_params)) = Inr 0"
  "data (slideHeap (snd (chain spec_genObj 0 example_calls (world_of example_params))) 0) =
     [TextObject (TextString ''Hello'') [],
      MediaObject [(''data'', JStr ''video/mp4;base64,AAAA'')] 1,
      ChartObject (ChartName ''bar'') [JNum 3, JNum 4] 2,
      ImageObject [(''path'', JStr ''a.png'')] 3]"
  "all_rel_ids (slideHeap (snd (chain spec_genObj 0 example_calls (world_of example_params))) 0) =
     [3, 2, 1]"
  by (simp_all add: example_calls_def world_of_def Slide_constructor_def example_params_def
      method_defs spec_defs return_this_def update_slide_def Let_def resolve_resource_def
      register_def next_rel_id_def all_rel_ids_def push_content_def or_empty_def)

theorem C1_content_in_call_order_witness:
  "slideHeap (world_of example_params) 0 = Slide_constructor example_params \<and>
   fst (chain spec_genObj 0 example_calls (world_of example_params)) = Inr 0 \<and>
   list_all2 built_by (filter (\<lambda>c. \<not> is_notes c) example_calls)
     (data (slideHeap (snd (chain spec_genObj 0 example_calls (world_of example_params))) 0)) \<and>
   length (data (slideHeap (snd (chain spec_genObj 0 example_calls (world_of example_params))) 0)) =
     length (filter (\<lambda>c. \<not> is_notes c) example_calls) \<and>
   length (filter (\<lambda>c. \<not> is_notes c) example_calls) = 4"
proof -
  have fresh: "slideHeap (world_of example_params) 0 = Slide_constructor example_params"
    by (rule world_of_slide)
  have four: "length (filter (\<lambda>c. \<not> is_notes c) example_calls) = 4"
    by (simp add: example_calls_def)
  show ?thesis
    using fresh example_chain_data(1) four
      C1_content_in_call_order [OF fresh example_chain_data(1)]
    by blast
qed

text \<open>
  C5. \<^verbatim>\<open>addTable\<close> with no rows fails with ValidationError and leaves the whole world,
  the slide's content list included, as it was.
\<close>

theorem C5_addTable_empty_rows_rejected:
  "addTable spec_genObj this [] options w = (Inl ValidationError, w)"
  by (simp add: addTable_def spec_genObj_def spec_addTableDefinition_def return_this_def Let_def)

theorem C5_addTable_empty_rows_rejected_witness:
  "addTable spec_genObj 0 [] None (snd (chain spec_genObj 0 example_calls (world_of example_params)))
     = (Inl ValidationError, snd (chain spec_genObj 0 example_calls (world_of example_params))) \<and>
   length (data (slideHeap (snd (chain spec_genObj 0 example_calls (world_of example_params))) 0)) = 4"
  using C5_addTable_empty_rows_rejected
    [of 0 None "snd (chain spec_genObj 0 example_calls (world_of example_params))"]
  by (simp add: example_chain_data(2))

text \<open>
  C6. On a freshly constructed Slide, after any sequence of public operations, the
  relationship identifiers of the three tables together are distinct and are the numbers
  from 1 to their count; the identifiers that the content list refers to, in call order
  and whatever their kind, are 1, 2, 3 and so on; each table lists its entries by
  increasing identifier. No public operation deletes an entry of a table.
\<close>

theorem C6_relationship_ids_unique_increasing:
  assumes fresh: "slideHeap w this = Slide_constructor params"
  shows "(let s' = slideHeap (perform_all spec_genObj this ops w) this;
              n = length (all_rel_ids s')
          in distinct (all_rel_ids s') \<and> set (all_rel_ids s') = {1..n} \<and>
             content_rel_ids (data s') = [1..<Suc n] \<and>
             sorted_wrt (<) (map relId (rels s')) \<and>
             sorted_wrt (<) (map relId (relsChart s')) \<and>
             sorted_wrt (<) (map relId (relsMedia s'))) \<and>
         prefix (rels (slideHeap v x)) (rels (slideHeap (snd (perform spec_genObj t op v)) x)) \<and>
         prefix (relsChart (slideHeap v x))
           (relsChart (slideHeap (snd (perform spec_genObj t op v)) x)) \<and>
         prefix (relsMedia (slideHeap v x))
           (relsMedia (slideHeap (snd (perform spec_genObj t op v)) x))"
proof -
  have "rels_wf (slideHeap w this)"
    by (simp add: fresh rels_wf_fresh)
  then have "rels_wf (slideHeap (perform_all spec_genObj this ops w) this)"
    by (rule perform_all_spec_wf)
  then have inv: "let s' = slideHeap (perform_all spec_genObj this ops w) this;
              n = length (all_rel_ids s')
          in distinct (all_rel_ids s') \<and> set (all_rel_ids s') = {1..n} \<and>
             content_rel_ids (data s') = [1..<Suc n] \<and>
             sorted_wrt (<) (map relId (rels s')) \<and>
             sorted_wrt (<) (map relId (relsChart s')) \<and>
             sorted_wrt (<) (map relId (relsMedia s'))"
    by (simp add: rels_wf_def Let_def)
  have keep: "grows (slideHeap v x) (slideHeap (snd (perform spec_genObj t op v)) x)"
    by (rule perform_spec_grows)
  show ?thesis
    using inv keep unfolding grows_def by blast
qed

lemma example_operations:
  "perform_all spec_genObj 0 (map Compose example_calls) (world_of example_params) =
     snd (chain spec_genObj 0 example_calls (world_of example_params))"
  by (simp add: example_calls_def method_defs spec_defs return_this_def resolve_resource_def)

theorem C6_relationship_ids_unique_increasing_witness:
  "slideHeap (world_of example_params) 0 = Slide_constructor example_params \<and>
   all_rel_ids (slideHeap (perform_all spec_genObj 0 (map Compose example_calls)
      (world_of example_params)) 0) = [3, 2, 1] \<and>
   (let s' = slideHeap (perform_all spec_genObj 0 (map Compose example_calls)
                (world_of example_params)) 0;
        n = length (all_rel_ids s')
    in distinct (all_rel_ids s') \<and> set (all_rel_ids s') = {1..n} \<and>
       content_rel_ids (data s') = [1..<Suc n] \<and>
       sorted_wrt (<) (map relId (rels s')) \<and>
       sorted_wrt (<) (map relId (relsChart s')) \<and>
       sorted_wrt (<) (map relId (relsMedia s')))"
proof -
  have fresh: "slideHeap (world_of example_params) 0 = Slide_constructor example_params"
    by (rule world_of_slide)
  have ids: "all_rel_ids (slideHeap (perform_all spec_genObj 0 (map Compose example_calls)
      (world_of example_params)) 0) = [3, 2, 1]"
    by (simp only: example_operations example_chain_data(3))
  show ?thesis
    using fresh ids
      C6_relationship_ids_unique_increasing [OF fresh, where ops = "map Compose example_calls"]
    by blast
qed

end
